theory Spec2Isabelle
  imports Complex_Main
begin

section \<open>Numeric values\<close>

text \<open>
  The script computes with numpy float64 values: finite numbers, the two infinities and
  NaN. A finite value is a rational number. Two arithmetics are defined on these values.
  The exact one (\<open>fadd\<close>, \<open>fmul\<close>, \<open>fdiv\<close>) does not round and does not overflow:
  it is the arithmetic over the rationals in which the specification states its
  properties "up to floating-point drift". The binary64 one (\<open>fadd64\<close>, \<open>fmul64\<close>,
  \<open>fdiv64\<close>, defined further down) rounds every result as IEEE 754 does. Both share the
  special cases of division numpy has: a nonzero value divided by zero is an infinity,
  zero divided by zero is NaN, and NaN compares false with everything. There is one
  zero, taken as the positive zero (the sum of values that cancel exactly is \<open>+0.0\<close> in
  round-to-nearest).
\<close>

datatype fval = Fin rat | PInf | NInf | NaN

fun is_finite :: "fval \<Rightarrow> bool" where
  "is_finite (Fin r) = True"
| "is_finite PInf = False"
| "is_finite NInf = False"
| "is_finite NaN = False"

text \<open>Addition: \<open>inf + (-inf)\<close> is NaN, an infinity absorbs every finite value.\<close>

fun fadd :: "fval \<Rightarrow> fval \<Rightarrow> fval" where
  "fadd (Fin a) (Fin b) = Fin (a + b)"
| "fadd NaN y = NaN"
| "fadd x NaN = NaN"
| "fadd PInf NInf = NaN"
| "fadd NInf PInf = NaN"
| "fadd PInf y = PInf"
| "fadd NInf y = NInf"
| "fadd x PInf = PInf"
| "fadd x NInf = NInf"

text \<open>The infinity with the sign of a nonzero rational; NaN for zero.\<close>

definition inf_of_sign :: "rat \<Rightarrow> fval" where
  "inf_of_sign a = (if a = 0 then NaN else if 0 < a then PInf else NInf)"

text \<open>Multiplication: \<open>0 * inf\<close> is NaN, otherwise the signs multiply.\<close>

fun fmul :: "fval \<Rightarrow> fval \<Rightarrow> fval" where
  "fmul (Fin a) (Fin b) = Fin (a * b)"
| "fmul NaN y = NaN"
| "fmul x NaN = NaN"
| "fmul (Fin a) PInf = inf_of_sign a"
| "fmul (Fin a) NInf = inf_of_sign (- a)"
| "fmul PInf (Fin b) = inf_of_sign b"
| "fmul NInf (Fin b) = inf_of_sign (- b)"
| "fmul PInf PInf = PInf"
| "fmul PInf NInf = NInf"
| "fmul NInf PInf = NInf"
| "fmul NInf NInf = PInf"

text \<open>
  Division as numpy performs it on float64: no exception is raised on a zero divisor
  (numpy only emits a warning), the result is \<open>nan\<close> for \<open>0 / 0\<close> and a signed
  infinity for \<open>a / 0\<close> with \<open>a \<noteq> 0\<close>.
\<close>

fun fdiv :: "fval \<Rightarrow> fval \<Rightarrow> fval" where
  "fdiv (Fin a) (Fin b) = (if b = 0 then inf_of_sign a else Fin (a / b))"
| "fdiv NaN y = NaN"
| "fdiv x NaN = NaN"
| "fdiv (Fin a) PInf = Fin 0"
| "fdiv (Fin a) NInf = Fin 0"
| "fdiv PInf (Fin b) = (if 0 \<le> b then PInf else NInf)"
| "fdiv NInf (Fin b) = (if 0 \<le> b then NInf else PInf)"
| "fdiv PInf y = NaN"
| "fdiv NInf y = NaN"

text \<open>The comparisons \<open>x > y\<close> and \<open>x <= y\<close>; both are false as soon as one side is NaN.\<close>

fun fgt :: "fval \<Rightarrow> fval \<Rightarrow> bool" where
  "fgt (Fin a) (Fin b) = (b < a)"
| "fgt NaN y = False"
| "fgt x NaN = False"
| "fgt PInf PInf = False"
| "fgt PInf y = True"
| "fgt x PInf = False"
| "fgt NInf y = False"
| "fgt x NInf = True"


section \<open>The normalizer\<close>

text \<open>
  \<^verbatim>\<open>np.sum(raw_output)\<close>: the sum of all components, starting from zero.
\<close>

definition np_sum :: "fval list \<Rightarrow> fval" where
  "np_sum xs = foldl fadd (Fin 0) xs"

text \<open>
  \<^verbatim>\<open>normalized = 100 * raw_output / np.sum(raw_output)\<close>: the array is first
  multiplied by 100 component by component, then every component is divided by the sum
  of the raw array. There is no guard on the sum.
\<close>

definition normalized :: "fval list \<Rightarrow> fval list" where
  "normalized raw_output =
     map (\<lambda>x. fdiv (fmul (Fin 100) x) (np_sum raw_output)) raw_output"

section \<open>Strings and console output\<close>

text \<open>
  Strings are byte strings in UTF-8: the source file is UTF-8 and the console receives
  these bytes. The non-ASCII characters of the source's literals are spelled out here.
\<close>

definition nl :: string where
  "nl = [CHR 0x0A]"

definition em_dash :: string where
  "em_dash = [CHR 0xE2, CHR 0x80, CHR 0x94]"

definition en_dash :: string where
  "en_dash = [CHR 0xE2, CHR 0x80, CHR 0x93]"

definition ldquo :: string where
  "ldquo = [CHR 0xE2, CHR 0x80, CHR 0x9C]"

definition rdquo :: string where
  "rdquo = [CHR 0xE2, CHR 0x80, CHR 0x9D]"

definition superscript_three :: string where
  "superscript_three = [CHR 0xC2, CHR 0xB3]"

definition backslash :: string where
  "backslash = [CHR 0x5C]"

text \<open>
  What reaches the console, in order: \<open>Printed s\<close> for \<^verbatim>\<open>print(s)\<close> (the line
  \<open>s\<close> and a newline), \<open>Prompted s\<close> for the prompt that \<^verbatim>\<open>input(s)\<close> writes.
\<close>

datatype event = Printed string | Prompted string

datatype error = ValueError | EOFError | FileNotFoundError | IndexError

definition GASES :: "string list" where
  "GASES = [''CO2'', ''N2'', ''O2'', ''H2O'', ''CH4'', ''H2'', ''He'', ''SO2'', ''O3'', ''NH3'']"

definition ESSENTIAL_FEATURES :: "string list" where
  "ESSENTIAL_FEATURES =
     [''pl_dens'', ''pl_orbper'', ''pl_eqtstr'', ''st_rad'', ''st_lum'',
      ''pl_bmassj'', ''pl_ratror'', ''st_met'']"

section \<open>Formatting\<close>

text \<open>The format \<^verbatim>\<open>{gas:>3}\<close>: right-aligned in a field of the given width.\<close>

definition rjust :: "nat \<Rightarrow> string \<Rightarrow> string" where
  "rjust w s = replicate (w - length s) (CHR '' '') @ s"

definition digit :: "nat \<Rightarrow> char" where
  "digit d = ''0123456789'' ! (d mod 10)"

fun dec :: "nat \<Rightarrow> string" where
  "dec n = (if n < 10 then [digit n] else dec (n div 10) @ [digit (n mod 10)])"

declare dec.simps [simp del]

text \<open>
  Rounding to the nearest integer, ties to the even one: the rounding of Python's
  \<^verbatim>\<open>format\<close> applied to the exact value.
\<close>

definition round_half_even :: "rat \<Rightarrow> int" where
  "round_half_even x =
     (let f = \<lfloor>x\<rfloor>; d = x - of_int f
      in if d < 1 / 2 then f
         else if 1 / 2 < d then f + 1
         else if even f then f else f + 1)"

text \<open>
  The format \<^verbatim>\<open>{percent:.2f}\<close>: two decimal places; the special values print as
  \<^verbatim>\<open>nan\<close>, \<^verbatim>\<open>inf\<close> and \<^verbatim>\<open>-inf\<close>.
\<close>

fun fmt2 :: "fval \<Rightarrow> string" where
  "fmt2 (Fin r) =
     (let c = nat (round_half_even (\<bar>r\<bar> * 100))
      in (if r < 0 then ''-'' else []) @ dec (c div 100) @ ''.'' @
         [digit (c mod 100 div 10), digit (c mod 10)])"
| "fmt2 PInf = ''inf''"
| "fmt2 NInf = ''-inf''"
| "fmt2 NaN = ''nan''"

section \<open>binary64 arithmetic\<close>

text \<open>
  The arithmetic numpy performs on float64: every operation returns the exact result
  rounded to the nearest binary64 number, ties to the number with an even significand
  (IEEE 754, the default rounding). A binary64 number has a significand of 53 bits; the
  unit in the last place of a value \<open>x\<close> with \<open>2^e \<le> |x| < 2^(e+1)\<close> is \<open>2^(e-52)\<close>,
  and \<open>2^(-1074)\<close> below the normal range (gradual underflow); a rounded magnitude of
  \<open>2^1024\<close> or more overflows to an infinity. As in the exact arithmetic above there is
  one zero.
\<close>

















section \<open>The report generator\<close>

text \<open>
  The body of the loop of \<^verbatim>\<open>generate_report\<close>, with the loop variables
  \<^verbatim>\<open>gas\<close> and \<^verbatim>\<open>percent\<close> as arguments: first the \<^verbatim>\<open>if/elif\<close> chain that
  binds \<^verbatim>\<open>descriptor\<close>, then the printed line.
\<close>

definition descriptor :: "string \<Rightarrow> fval \<Rightarrow> string" where
  "descriptor gas percent =
     (if fgt percent (Fin 60) then '' '' @ em_dash @ '' Dominant gas''
      else if fgt percent (Fin 20) then '' '' @ em_dash @ '' Major component''
      else if fgt percent (Fin 5) then '' '' @ em_dash @ '' Minor component''
      else '' '' @ em_dash @ '' Trace presence'')"

definition report_line :: "string \<Rightarrow> fval \<Rightarrow> string" where
  "report_line gas percent =
     rjust 3 gas @ '': '' @ fmt2 percent @ ''%'' @ descriptor gas percent"

definition border :: string where
  "border = ''====================================''"

text \<open>
  \<^verbatim>\<open>generate_report(percentages)\<close>: what the function prints, from its first
  statement to its last one, the line \<^verbatim>\<open>" Referenced Research Papers:"\<close>.
\<close>

definition generate_report :: "fval list \<Rightarrow> event list" where
  "generate_report percentages =
     [Printed (nl @ ''Atmospheric Composition Report''), Printed border] @
     map (\<lambda>(gas, percent). Printed (report_line gas percent)) (zip GASES percentages) @
     [Printed (border @ nl), Printed '' Referenced Research Papers:'']"

text \<open>
  The four \<^verbatim>\<open>print\<close> statements that follow \<^verbatim>\<open>generate_report\<close> in the source.
  They start in column 0, so they are statements of the module, not of the function: they
  run once, when the module is executed, before the \<^verbatim>\<open>__main__\<close> block. The
  backslash before each quotation mark is not an escape sequence of Python and stays in
  the string.
\<close>

definition citations :: "string list" where
  "citations =
     [''Armstrong et al., 2020 - '' @ backslash @ ldquo @
        ''Atmospheric Retention Limits of Exoplanets Around M-Dwarfs'' @ backslash @ rdquo,
      ''Seager & Deming, 2019 '' @ en_dash @ '' '' @ backslash @ ldquo @
        ''Exoplanet Atmospheres and Photochemical Modeling'' @ backslash @ rdquo,
      ''Lopez & Fortney, 2013 '' @ en_dash @ '' '' @ backslash @ ldquo @
        ''The Role of Mass and Stellar Flux in Shaping Exoplanet Atmospheres'' @
        backslash @ rdquo,
      ''Madhusudhan et al., 2014 '' @ en_dash @ '' '' @ backslash @ ldquo @
        ''A Survey of Chemical Compositions of Transiting Exoplanets'' @ backslash @ rdquo]"

section \<open>The world and the libraries\<close>

text \<open>
  The state the script acts on: the lines still to be read from standard input, what has
  been written to the console, the files holding a serialized model (a map from path to
  model: storing a model always succeeds and replaces what the path held), and the state
  of numpy's global random generator.
\<close>

record ('g, 'm) world =
  stdin :: "string list"
  console :: "event list"
  files :: "string \<rightharpoonup> 'm"
  rng :: 'g

text \<open>
  The library functions the script calls and does not define are parameters:
  \<^item> \<open>py_float\<close> is Python's \<^verbatim>\<open>float(s)\<close>, \<open>None\<close> where it raises \<^verbatim>\<open>ValueError\<close>;
  \<^item> \<open>np_random_rand m n\<close> is \<^verbatim>\<open>np.random.rand(m, n)\<close>, a list of rows;
  \<^item> \<open>np_random_dirichlet alpha size\<close> is \<^verbatim>\<open>np.random.dirichlet(alpha, size=size)\<close>;
  \<^item> \<open>forest_fit n_estimators random_state X Y\<close> is the regressor that
    \<^verbatim>\<open>RandomForestRegressor(n_estimators, random_state).fit(X, Y)\<close> leaves;
  \<^item> \<open>forest_predict model df\<close> is \<^verbatim>\<open>model.predict(df)\<close>, one output row for each
    row of the table, or the error it raises.
\<close>

record ('g, 'm) library =
  py_float :: "string \<Rightarrow> fval option"
  np_random_rand :: "nat \<Rightarrow> nat \<Rightarrow> 'g \<Rightarrow> fval list list \<times> 'g"
  np_random_dirichlet :: "fval list \<Rightarrow> nat \<Rightarrow> 'g \<Rightarrow> fval list list \<times> 'g"
  forest_fit :: "nat \<Rightarrow> nat \<Rightarrow> fval list list \<Rightarrow> fval list list \<Rightarrow> 'm"
  forest_predict :: "'m \<Rightarrow> (string \<times> fval) list list \<Rightarrow> error + fval list list"

definition print :: "string \<Rightarrow> ('g, 'm) world \<Rightarrow> ('g, 'm) world" where
  "print s w = w\<lparr>console := console w @ [Printed s]\<rparr>"

text \<open>
  \<^verbatim>\<open>input(prompt)\<close>: writes the prompt, then reads one line; at the end of the input it
  raises \<^verbatim>\<open>EOFError\<close>.
\<close>

definition input :: "string \<Rightarrow> ('g, 'm) world \<Rightarrow> (error + string) \<times> ('g, 'm) world" where
  "input prompt w =
     (let w1 = w\<lparr>console := console w @ [Prompted prompt]\<rparr>
      in case stdin w1 of
           [] \<Rightarrow> (Inl EOFError, w1)
         | line # rest \<Rightarrow> (Inr line, w1\<lparr>stdin := rest\<rparr>))"

section \<open>The input collector\<close>

text \<open>
  The dictionary display of \<^verbatim>\<open>get_input\<close>: its keys, each with the prompt of its value,
  in the order of the source. Python evaluates the entries from first to last.
\<close>

definition get_input_entries :: "(string \<times> string) list" where
  "get_input_entries =
     [(''pl_dens'', ''Planet Density (g/cm'' @ superscript_three @ ''): ''),
      (''pl_orbper'', ''Orbital Period (days): ''),
      (''pl_eqtstr'', ''Equilibrium Temperature (K): ''),
      (''st_rad'', ''Stellar Radius (Solar Radii): ''),
      (''st_lum'', ''Stellar Luminosity (Solar Units): ''),
      (''pl_bmassj'', ''Planet Mass (Jupiter Masses): ''),
      (''pl_ratror'', ''Planet-to-Star Radius Ratio: ''),
      (''st_met'', ''Stellar Metallicity [Fe/H]: '')]"

text \<open>
  The entries are evaluated one after the other, \<^verbatim>\<open>float(input(prompt))\<close> each; the
  first exception ends the evaluation. The dictionary is an association list, in
  insertion order.
\<close>

fun read_entries ::
  "(string \<Rightarrow> fval option) \<Rightarrow> (string \<times> string) list \<Rightarrow> ('g, 'm) world \<Rightarrow>
   (error + (string \<times> fval) list) \<times> ('g, 'm) world" where
  "read_entries pf [] w = (Inr [], w)"
| "read_entries pf ((key, prompt) # entries) w =
     (case input prompt w of
        (Inl e, w1) \<Rightarrow> (Inl e, w1)
      | (Inr line, w1) \<Rightarrow>
          (case pf line of
             None \<Rightarrow> (Inl ValueError, w1)
           | Some v \<Rightarrow>
               (case read_entries pf entries w1 of
                  (Inl e, w2) \<Rightarrow> (Inl e, w2)
                | (Inr d, w2) \<Rightarrow> (Inr ((key, v) # d), w2))))"

definition get_input ::
  "('g, 'm) library \<Rightarrow> ('g, 'm) world \<Rightarrow> (error + (string \<times> fval) list) \<times> ('g, 'm) world" where
  "get_input L w =
     read_entries (py_float L) get_input_entries
       (print ''Enter Essential Exoplanet Parameters:'' w)"

section \<open>The trainer\<close>

definition model_path :: string where
  "model_path = ''atmo_percent_predictor.pkl''"

definition np_ones :: "nat \<Rightarrow> fval list" where
  "np_ones n = replicate n (Fin 1)"

text \<open>
  The first two statements of \<^verbatim>\<open>train_dummy_model\<close>: the feature rows \<open>X\<close>, then
  the label rows \<open>Y\<close>, every component of the Dirichlet draws multiplied by 100.
\<close>

definition training_data ::
  "('g, 'm) library \<Rightarrow> 'g \<Rightarrow> fval list list \<times> fval list list \<times> 'g" where
  "training_data L g =
     (let (X, g1) = np_random_rand L 500 (length ESSENTIAL_FEATURES) g;
          (D, g2) = np_random_dirichlet L (np_ones (length GASES)) 500 g1;
          Y = map (map (\<lambda>y. fmul y (Fin 100))) D
      in (X, Y, g2))"

definition train_dummy_model :: "('g, 'm) library \<Rightarrow> ('g, 'm) world \<Rightarrow> ('g, 'm) world" where
  "train_dummy_model L w =
     (let (X, Y, g2) = training_data L (rng w);
          model = forest_fit L 100 42 X Y;
          w1 = w\<lparr>rng := g2, files := (files w)(model_path \<mapsto> model)\<rparr>
      in print ''Dummy atmospheric composition model trained and saved.'' w1)"

section \<open>The main block and the script\<close>

text \<open>
  The statements of the \<^verbatim>\<open>__main__\<close> block after the call of the trainer: collect the
  input, load the model, predict, take the first row, normalize, report. No exception
  is caught anywhere in the script, so the first one ends the run.
\<close>

definition predict_and_report ::
  "('g, 'm) library \<Rightarrow> ('g, 'm) world \<Rightarrow> (error + unit) \<times> ('g, 'm) world" where
  "predict_and_report L w =
     (case get_input L w of
        (Inl e, w1) \<Rightarrow> (Inl e, w1)
      | (Inr user_input, w1) \<Rightarrow>
          (let df = [user_input]
           in case files w1 model_path of
                None \<Rightarrow> (Inl FileNotFoundError, w1)
              | Some model \<Rightarrow>
                  (case forest_predict L model df of
                     Inl e \<Rightarrow> (Inl e, w1)
                   | Inr rows \<Rightarrow>
                       (case rows of
                          [] \<Rightarrow> (Inl IndexError, w1)
                        | raw_output # others \<Rightarrow>
                            (Inr (), w1\<lparr>console :=
                               console w1 @ generate_report (normalized raw_output)\<rparr>)))))"

definition main :: "('g, 'm) library \<Rightarrow> ('g, 'm) world \<Rightarrow> (error + unit) \<times> ('g, 'm) world" where
  "main L w = predict_and_report L (train_dummy_model L w)"

text \<open>
  The script run as a program: the statements of the module in their order, which are
  the four citation prints, then the \<^verbatim>\<open>__main__\<close> block.
\<close>

definition script :: "('g, 'm) library \<Rightarrow> ('g, 'm) world \<Rightarrow> (error + unit) \<times> ('g, 'm) world" where
  "script L w = main L (w\<lparr>console := console w @ map Printed citations\<rparr>)"

section \<open>What the trainer expects of numpy\<close>



section \<open>A small library and world to run the script on\<close>

text \<open>
  One instance of the library parameters, for evaluating the script on concrete inputs:
  the number parser knows a few literals, the random draws are constant (every feature
  is 1/2, every label row is uniform), the fitted model is a fixed output row and the
  prediction returns it for every row of the table.
\<close>

definition demo_float :: "string \<Rightarrow> fval option" where
  "demo_float = map_of [(''0.5'', Fin (1 / 2)), (''1'', Fin 1), (''2'', Fin 2), (''300'', Fin 300)]"

definition demo_row :: "fval list" where
  "demo_row = map Fin [70, 5, 5, 5, 5, 2, 2, 2, 1, 1]"

definition demo_library :: "(nat, fval list) library" where
  "demo_library =
     \<lparr>py_float = demo_float,
      np_random_rand = (\<lambda>m n g. (replicate m (replicate n (Fin (1 / 2))), g + 1)),
      np_random_dirichlet =
        (\<lambda>alpha size g. (replicate size (map (\<lambda>a. Fin (1 / of_nat (length alpha))) alpha), g + 1)),
      forest_fit = (\<lambda>n_estimators random_state X Y. demo_row),
      forest_predict = (\<lambda>model df. Inr (map (\<lambda>row. model) df))\<rparr>"

definition demo_world :: "string list \<Rightarrow> (nat, fval list) world" where
  "demo_world lines = \<lparr>stdin = lines, console = [], files = Map.empty, rng = 0\<rparr>"

section \<open>Finite vectors\<close>







section \<open>The descriptor\<close>

text \<open>
  C2. For every percentage \<open>p\<close> and every gas, the descriptor bound by the loop body is
  the fixed separator (a space, an em dash, a space) followed by "Dominant gas" if
  \<open>p > 60\<close>, else "Major component" if \<open>p > 20\<close>, else "Minor component" if
  \<open>p > 5\<close>, otherwise "Trace presence"; the thresholds are strict, an infinite or
  NaN percentage falls where its comparisons put it, and the descriptor is the same for
  any two gases.
\<close>

theorem descriptor_thresholds:
  "descriptor gas (Fin r) =
     '' '' @ em_dash @ '' '' @
       (if 60 < r then ''Dominant gas''
        else if 20 < r then ''Major component''
        else if 5 < r then ''Minor component''
        else ''Trace presence'') \<and>
   descriptor gas PInf = '' '' @ em_dash @ '' Dominant gas'' \<and>
   descriptor gas NInf = '' '' @ em_dash @ '' Trace presence'' \<and>
   descriptor gas NaN = '' '' @ em_dash @ '' Trace presence'' \<and>
   descriptor gas p = descriptor gas' p"
  by (simp add: descriptor_def)

section \<open>The all-zero vector\<close>

text \<open>
  C3. For the all-zero raw 10-vector the sum is zero, the division is not guarded, and
  every normalized component is NaN: no component is finite, and no error is raised.
\<close>

theorem normalized_all_zero:
  "np_sum [Fin 0, Fin 0, Fin 0, Fin 0, Fin 0, Fin 0, Fin 0, Fin 0, Fin 0, Fin 0] = Fin 0 \<and>
   normalized [Fin 0, Fin 0, Fin 0, Fin 0, Fin 0, Fin 0, Fin 0, Fin 0, Fin 0, Fin 0] =
     [NaN, NaN, NaN, NaN, NaN, NaN, NaN, NaN, NaN, NaN] \<and>
   filter is_finite
     (normalized [Fin 0, Fin 0, Fin 0, Fin 0, Fin 0, Fin 0, Fin 0, Fin 0, Fin 0, Fin 0]) = []"
  by (simp add: normalized_def np_sum_def inf_of_sign_def)

section \<open>The scenario of the specification\<close>

lemma scenario_normalized:
  "normalized (map Fin [70, 5, 5, 5, 5, 2, 2, 2, 1, 1]) =
   map Fin [100 * 70 / 98, 100 * 5 / 98, 100 * 5 / 98, 100 * 5 / 98, 100 * 5 / 98,
            100 * 2 / 98, 100 * 2 / 98, 100 * 2 / 98, 100 * 1 / 98, 100 * 1 / 98]"
  by (simp add: normalized_def np_sum_def)

lemma scenario_close:
  "list_all2 (\<lambda>y a. \<bar>y - a\<bar> \<le> 1 / 200)
     [100 * 70 / 98, 100 * 5 / 98, 100 * 5 / 98, 100 * 5 / 98, 100 * 5 / 98,
      100 * 2 / 98, 100 * 2 / 98, 100 * 2 / 98, 100 * 1 / 98, 100 * 1 / (98::rat)]
     [7143 / 100, 510 / 100, 510 / 100, 510 / 100, 510 / 100,
      204 / 100, 204 / 100, 204 / 100, 102 / 100, 102 / 100]"
  by simp

lemma scenario_printed:
  "map fmt2 (normalized (map Fin [70, 5, 5, 5, 5, 2, 2, 2, 1, 1])) =
   [''71.43'', ''5.10'', ''5.10'', ''5.10'', ''5.10'',
    ''2.04'', ''2.04'', ''2.04'', ''1.02'', ''1.02'']"
  by code_simp

lemma scenario_descriptors:
  "map (\<lambda>(gas, percent). (gas, descriptor gas percent))
       (zip GASES (normalized (map Fin [70, 5, 5, 5, 5, 2, 2, 2, 1, 1]))) =
   [(''CO2'', '' '' @ em_dash @ '' Dominant gas''),
    (''N2'', '' '' @ em_dash @ '' Minor component''),
    (''O2'', '' '' @ em_dash @ '' Minor component''),
    (''H2O'', '' '' @ em_dash @ '' Minor component''),
    (''CH4'', '' '' @ em_dash @ '' Minor component''),
    (''H2'', '' '' @ em_dash @ '' Trace presence''),
    (''He'', '' '' @ em_dash @ '' Trace presence''),
    (''SO2'', '' '' @ em_dash @ '' Trace presence''),
    (''O3'', '' '' @ em_dash @ '' Trace presence''),
    (''NH3'', '' '' @ em_dash @ '' Trace presence'')]"
  by (simp add: normalized_def np_sum_def GASES_def descriptor_def)

text \<open>
  C4. The raw vector [70,5,5,5,5,2,2,2,1,1] has sum 98; every normalized component is
  100 times the raw value divided by 98; the components are within 0.005 of
  71.43, 5.10 (four times), 2.04 (three times) and 1.02 (twice), which are also the
  two-decimal numbers the report prints; CO2 is classified "Dominant gas", N2, O2, H2O
  and CH4 "Minor component", and H2, He, SO2, O3 and NH3 "Trace presence".
\<close>

theorem scenario_70_5_5_5_5_2_2_2_1_1:
  "np_sum (map Fin [70, 5, 5, 5, 5, 2, 2, 2, 1, 1]) = Fin 98 \<and>
   normalized (map Fin [70, 5, 5, 5, 5, 2, 2, 2, 1, 1]) =
     map Fin [100 * 70 / 98, 100 * 5 / 98, 100 * 5 / 98, 100 * 5 / 98, 100 * 5 / 98,
              100 * 2 / 98, 100 * 2 / 98, 100 * 2 / 98, 100 * 1 / 98, 100 * 1 / 98] \<and>
   list_all2 (\<lambda>y a. \<bar>y - a\<bar> \<le> 1 / 200)
     [100 * 70 / 98, 100 * 5 / 98, 100 * 5 / 98, 100 * 5 / 98, 100 * 5 / 98,
      100 * 2 / 98, 100 * 2 / 98, 100 * 2 / 98, 100 * 1 / 98, 100 * 1 / (98::rat)]
     [7143 / 100, 510 / 100, 510 / 100, 510 / 100, 510 / 100,
      204 / 100, 204 / 100, 204 / 100, 102 / 100, 102 / 100] \<and>
   map fmt2 (normalized (map Fin [70, 5, 5, 5, 5, 2, 2, 2, 1, 1])) =
     [''71.43'', ''5.10'', ''5.10'', ''5.10'', ''5.10'',
      ''2.04'', ''2.04'', ''2.04'', ''1.02'', ''1.02''] \<and>
   map (\<lambda>(gas, percent). (gas, descriptor gas percent))
       (zip GASES (normalized (map Fin [70, 5, 5, 5, 5, 2, 2, 2, 1, 1]))) =
     [(''CO2'', '' '' @ em_dash @ '' Dominant gas''),
      (''N2'', '' '' @ em_dash @ '' Minor component''),
      (''O2'', '' '' @ em_dash @ '' Minor component''),
      (''H2O'', '' '' @ em_dash @ '' Minor component''),
      (''CH4'', '' '' @ em_dash @ '' Minor component''),
      (''H2'', '' '' @ em_dash @ '' Trace presence''),
      (''He'', '' '' @ em_dash @ '' Trace presence''),
      (''SO2'', '' '' @ em_dash @ '' Trace presence''),
      (''O3'', '' '' @ em_dash @ '' Trace presence''),
      (''NH3'', '' '' @ em_dash @ '' Trace presence'')]"
proof -
  have "np_sum (map Fin [70, 5, 5, 5, 5, 2, 2, 2, 1, 1]) = Fin 98"
    by (simp add: np_sum_def)
  then show ?thesis
    using scenario_normalized scenario_close scenario_printed scenario_descriptors
    by (intro conjI)
qed

section \<open>Scaling and normalizing again\<close>









section \<open>Range and order of the normalized components\<close>




section \<open>The input collector, step by step\<close>

lemma console_input: "console (snd (input p w)) = console w @ [Prompted p]"
  by (simp add: input_def Let_def split: list.splits)

lemma read_entries_ok:
  "length answers = length entries \<Longrightarrow> map pf answers = map Some vs \<Longrightarrow>
   stdin w = answers @ rest \<Longrightarrow>
   read_entries pf entries w =
     (Inr (zip (map fst entries) vs),
      w\<lparr>stdin := rest, console := console w @ map (Prompted \<circ> snd) entries\<rparr>)"
proof (induction entries arbitrary: answers vs w)
  case Nil
  then show ?case by simp
next
  case (Cons e entries)
  obtain key prompt where e: "e = (key, prompt)" by (cases e)
  from Cons.prems(1) obtain a as where answers: "answers = a # as"
    by (cases answers) simp_all
  from Cons.prems(2) answers obtain v vs' where vs: "vs = v # vs'" and pa: "pf a = Some v"
    and pas: "map pf as = map Some vs'"
    by (cases vs) auto
  let ?w1 = "w\<lparr>console := console w @ [Prompted prompt], stdin := as @ rest\<rparr>"
  have inp: "input prompt w = (Inr a, ?w1)"
    using Cons.prems(3) answers by (simp add: input_def Let_def)
  have len: "length as = length entries" using Cons.prems(1) answers by simp
  have st: "stdin ?w1 = as @ rest" by simp
  have rec: "read_entries pf entries ?w1 =
      (Inr (zip (map fst entries) vs'),
       ?w1\<lparr>stdin := rest, console := console ?w1 @ map (Prompted \<circ> snd) entries\<rparr>)"
    by (rule Cons.IH [OF len pas st])
  show ?case
    by (simp add: e vs inp pa rec)
qed

lemma read_entries_bad:
  "length good < length entries \<Longrightarrow> map pf good = map Some vs \<Longrightarrow> pf bad = None \<Longrightarrow>
   stdin w = good @ bad # rest \<Longrightarrow>
   read_entries pf entries w =
     (Inl ValueError,
      w\<lparr>stdin := rest,
        console := console w @ map (Prompted \<circ> snd) (take (Suc (length good)) entries)\<rparr>)"
proof (induction entries arbitrary: good vs w)
  case Nil
  then show ?case by simp
next
  case (Cons e entries)
  obtain key prompt where e: "e = (key, prompt)" by (cases e)
  show ?case
  proof (cases good)
    case Nil
    have inp: "input prompt w =
       (Inr bad, w\<lparr>console := console w @ [Prompted prompt], stdin := rest\<rparr>)"
      using Cons.prems(4) Nil by (simp add: input_def Let_def)
    show ?thesis
      by (simp add: e Nil inp Cons.prems(3))
  next
    case (Cons a as)
    from Cons.prems(2) Cons obtain v vs' where vs: "vs = v # vs'" and pa: "pf a = Some v"
      and pas: "map pf as = map Some vs'"
      by (cases vs) auto
    let ?w1 = "w\<lparr>console := console w @ [Prompted prompt], stdin := as @ bad # rest\<rparr>"
    have inp: "input prompt w = (Inr a, ?w1)"
      using Cons.prems(4) Cons by (simp add: input_def Let_def)
    have len: "length as < length entries" using Cons.prems(1) Cons by simp
    have st: "stdin ?w1 = as @ bad # rest" by simp
    have rec: "read_entries pf entries ?w1 =
      (Inl ValueError,
       ?w1\<lparr>stdin := rest,
         console := console ?w1 @ map (Prompted \<circ> snd) (take (Suc (length as)) entries)\<rparr>)"
      by (rule Cons.IH [OF len pas Cons.prems(3) st])
    show ?thesis
      by (simp add: e Cons inp pa rec)
  qed
qed

lemma keys_entries: "map fst get_input_entries = ESSENTIAL_FEATURES"
  by (simp add: get_input_entries_def ESSENTIAL_FEATURES_def)

lemma length_entries: "length get_input_entries = 8"
  by (simp add: get_input_entries_def)

lemma get_input_ok:
  assumes "length answers = 8" and "map (py_float L) answers = map Some vs"
    and "stdin w = answers @ rest"
  shows "get_input L w =
     (Inr (zip ESSENTIAL_FEATURES vs),
      w\<lparr>stdin := rest,
        console := console w @ Printed ''Enter Essential Exoplanet Parameters:'' #
                   map (Prompted \<circ> snd) get_input_entries\<rparr>)"
proof -
  let ?w0 = "print ''Enter Essential Exoplanet Parameters:'' w"
  have len: "length answers = length get_input_entries"
    using assms(1) by (simp add: length_entries)
  have st: "stdin ?w0 = answers @ rest" using assms(3) by (simp add: print_def)
  show ?thesis
    unfolding get_input_def
    by (simp add: read_entries_ok [OF len assms(2) st] keys_entries) (simp add: print_def)
qed

lemma get_input_bad:
  assumes "length good < 8" and "map (py_float L) good = map Some vs"
    and "py_float L bad = None" and "stdin w = good @ bad # rest"
  shows "get_input L w =
     (Inl ValueError,
      w\<lparr>stdin := rest,
        console := console w @ Printed ''Enter Essential Exoplanet Parameters:'' #
                   map (Prompted \<circ> snd) (take (Suc (length good)) get_input_entries)\<rparr>)"
proof -
  let ?w0 = "print ''Enter Essential Exoplanet Parameters:'' w"
  have len: "length good < length get_input_entries"
    using assms(1) by (simp add: length_entries)
  have st: "stdin ?w0 = good @ bad # rest" using assms(4) by (simp add: print_def)
  show ?thesis
    unfolding get_input_def
    by (simp add: read_entries_bad [OF len assms(2) assms(3) st]) (simp add: print_def)
qed

lemma stdin_train: "stdin (train_dummy_model L w) = stdin w"
  by (simp add: train_dummy_model_def print_def Let_def split: prod.splits)

lemma console_train:
  "console (train_dummy_model L w) =
     console w @ [Printed ''Dummy atmospheric composition model trained and saved.'']"
  by (simp add: train_dummy_model_def print_def Let_def split: prod.splits)



lemma rng_train: "rng (train_dummy_model L w) = snd (snd (training_data L (rng w)))"
  by (simp add: train_dummy_model_def print_def Let_def split: prod.splits)

lemma demo_parse_ok:
  "map (py_float demo_library) [''1'', ''2'', ''0.5'', ''1'', ''1'', ''300'', ''0.5'', ''2''] =
   map Some [Fin 1, Fin 2, Fin (1 / 2), Fin 1, Fin 1, Fin 300, Fin (1 / 2), Fin 2]"
  by (simp add: demo_library_def demo_float_def)

text \<open>
  C6. The input collector prints its heading and then prompts for the 8 values one after
  the other, in the order planet density, orbital period, equilibrium temperature,
  stellar radius, stellar luminosity, planet mass, planet-to-star radius ratio, stellar
  metallicity. If the 8 answers all parse as numbers, it returns the dictionary that
  maps the 8 feature names, in that order, to the parsed values. If an answer does not
  parse (the answers before it did), it raises \<open>ValueError\<close> after that prompt: the
  prompt is not repeated, no later prompt is issued, and the script ends with this error
  without printing a report.
\<close>

theorem get_input_sequential_no_retry:
  "(length answers = 8 \<and> map (py_float L) answers = map Some vs \<and> stdin w = answers @ rest \<longrightarrow>
      get_input L w =
        (Inr (zip ESSENTIAL_FEATURES vs),
         w\<lparr>stdin := rest,
           console := console w @ Printed ''Enter Essential Exoplanet Parameters:'' #
                      map (Prompted \<circ> snd) get_input_entries\<rparr>)) \<and>
   (length good < 8 \<and> map (py_float L) good = map Some vs \<and> py_float L bad = None \<and>
    stdin w = good @ bad # rest \<longrightarrow>
      get_input L w =
        (Inl ValueError,
         w\<lparr>stdin := rest,
           console := console w @ Printed ''Enter Essential Exoplanet Parameters:'' #
                      map (Prompted \<circ> snd) (take (Suc (length good)) get_input_entries)\<rparr>) \<and>
      fst (script L w) = Inl ValueError \<and>
      console (snd (script L w)) =
        console w @ map Printed citations @
        [Printed ''Dummy atmospheric composition model trained and saved.'',
         Printed ''Enter Essential Exoplanet Parameters:''] @
        map (Prompted \<circ> snd) (take (Suc (length good)) get_input_entries))"
proof (intro conjI impI)
  assume "length answers = 8 \<and> map (py_float L) answers = map Some vs \<and> stdin w = answers @ rest"
  then show "get_input L w =
        (Inr (zip ESSENTIAL_FEATURES vs),
         w\<lparr>stdin := rest,
           console := console w @ Printed ''Enter Essential Exoplanet Parameters:'' #
                      map (Prompted \<circ> snd) get_input_entries\<rparr>)"
    by (elim conjE) (rule get_input_ok)
next
  assume h: "length good < 8 \<and> map (py_float L) good = map Some vs \<and> py_float L bad = None \<and>
    stdin w = good @ bad # rest"
  then show "get_input L w =
        (Inl ValueError,
         w\<lparr>stdin := rest,
           console := console w @ Printed ''Enter Essential Exoplanet Parameters:'' #
                      map (Prompted \<circ> snd) (take (Suc (length good)) get_input_entries)\<rparr>)"
    by (elim conjE) (rule get_input_bad)
next
  assume h: "length good < 8 \<and> map (py_float L) good = map Some vs \<and> py_float L bad = None \<and>
    stdin w = good @ bad # rest"
  let ?w1 = "train_dummy_model L (w\<lparr>console := console w @ map Printed citations\<rparr>)"
  have st: "stdin ?w1 = good @ bad # rest" using h by (simp add: stdin_train)
  have gi: "get_input L ?w1 =
     (Inl ValueError,
      ?w1\<lparr>stdin := rest,
        console := console ?w1 @ Printed ''Enter Essential Exoplanet Parameters:'' #
                   map (Prompted \<circ> snd) (take (Suc (length good)) get_input_entries)\<rparr>)"
    using h st by (elim conjE) (rule get_input_bad)
  show "fst (script L w) = Inl ValueError"
    by (simp add: script_def main_def predict_and_report_def gi)
  show "console (snd (script L w)) =
        console w @ map Printed citations @
        [Printed ''Dummy atmospheric composition model trained and saved.'',
         Printed ''Enter Essential Exoplanet Parameters:''] @
        map (Prompted \<circ> snd) (take (Suc (length good)) get_input_entries)"
    by (simp add: script_def main_def predict_and_report_def gi console_train)
qed

theorem get_input_sequential_no_retry_witness:
  "(length [''1'', ''2'', ''0.5'', ''1'', ''1'', ''300'', ''0.5'', ''2''] = 8 \<and>
    map (py_float demo_library) [''1'', ''2'', ''0.5'', ''1'', ''1'', ''300'', ''0.5'', ''2''] =
      map Some [Fin 1, Fin 2, Fin (1 / 2), Fin 1, Fin 1, Fin 300, Fin (1 / 2), Fin 2] \<and>
    stdin (demo_world [''1'', ''2'', ''0.5'', ''1'', ''1'', ''300'', ''0.5'', ''2'']) =
      [''1'', ''2'', ''0.5'', ''1'', ''1'', ''300'', ''0.5'', ''2''] @ []) \<and>
   get_input demo_library (demo_world [''1'', ''2'', ''0.5'', ''1'', ''1'', ''300'', ''0.5'', ''2'']) =
     (Inr (zip ESSENTIAL_FEATURES
             [Fin 1, Fin 2, Fin (1 / 2), Fin 1, Fin 1, Fin 300, Fin (1 / 2), Fin 2]),
      (demo_world [''1'', ''2'', ''0.5'', ''1'', ''1'', ''300'', ''0.5'', ''2''])
        \<lparr>stdin := [],
         console :=
           console (demo_world [''1'', ''2'', ''0.5'', ''1'', ''1'', ''300'', ''0.5'', ''2'']) @
           Printed ''Enter Essential Exoplanet Parameters:'' #
           map (Prompted \<circ> snd) get_input_entries\<rparr>) \<and>
   (length [''1'', ''2''] < 8 \<and>
    map (py_float demo_library) [''1'', ''2''] = map Some [Fin 1, Fin 2] \<and>
    py_float demo_library ''hot'' = None \<and>
    stdin (demo_world [''1'', ''2'', ''hot'', ''1'']) = [''1'', ''2''] @ ''hot'' # [''1'']) \<and>
   fst (script demo_library (demo_world [''1'', ''2'', ''hot'', ''1''])) = Inl ValueError \<and>
   console (snd (script demo_library (demo_world [''1'', ''2'', ''hot'', ''1'']))) =
     console (demo_world [''1'', ''2'', ''hot'', ''1'']) @ map Printed citations @
     [Printed ''Dummy atmospheric composition model trained and saved.'',
      Printed ''Enter Essential Exoplanet Parameters:''] @
     map (Prompted \<circ> snd) (take (Suc (length [''1'', ''2''])) get_input_entries)"
proof -
  have ok: "length [''1'', ''2'', ''0.5'', ''1'', ''1'', ''300'', ''0.5'', ''2''] = 8 \<and>
    map (py_float demo_library) [''1'', ''2'', ''0.5'', ''1'', ''1'', ''300'', ''0.5'', ''2''] =
      map Some [Fin 1, Fin 2, Fin (1 / 2), Fin 1, Fin 1, Fin 300, Fin (1 / 2), Fin 2] \<and>
    stdin (demo_world [''1'', ''2'', ''0.5'', ''1'', ''1'', ''300'', ''0.5'', ''2'']) =
      [''1'', ''2'', ''0.5'', ''1'', ''1'', ''300'', ''0.5'', ''2''] @ []"
    by (simp add: demo_library_def demo_float_def demo_world_def)
  have bad: "length [''1'', ''2''] < 8 \<and>
    map (py_float demo_library) [''1'', ''2''] = map Some [Fin 1, Fin 2] \<and>
    py_float demo_library ''hot'' = None \<and>
    stdin (demo_world [''1'', ''2'', ''hot'', ''1'']) = [''1'', ''2''] @ ''hot'' # [''1'']"
    by (simp add: demo_library_def demo_float_def demo_world_def)
  note a = get_input_sequential_no_retry [where answers = "[''1'', ''2'', ''0.5'', ''1'', ''1'', ''300'', ''0.5'', ''2'']"
      and L = demo_library
      and vs = "[Fin 1, Fin 2, Fin (1 / 2), Fin 1, Fin 1, Fin 300, Fin (1 / 2), Fin 2]"
      and w = "demo_world [''1'', ''2'', ''0.5'', ''1'', ''1'', ''300'', ''0.5'', ''2'']"
      and rest = "[]", THEN conjunct1, rule_format, OF ok]
  note b = get_input_sequential_no_retry [where good = "[''1'', ''2'']" and L = demo_library and vs = "[Fin 1, Fin 2]"
      and bad = "''hot''" and w = "demo_world [''1'', ''2'', ''hot'', ''1'']"
      and rest = "[''1'']", THEN conjunct2, rule_format, OF bad]
  show ?thesis
    using ok bad a b by blast
qed

section \<open>Loading the model\<close>

text \<open>
  C8. If the model file is absent when the statements after the training call reach
  \<^verbatim>\<open>joblib.load\<close> (the 8 answers have been read and parsed), the run ends with
  \<open>FileNotFoundError\<close>: nothing is caught, no model or prediction is substituted, and
  nothing is printed after the prompts.
\<close>

theorem missing_model_file_not_found:
  "length answers = 8 \<Longrightarrow> map (py_float L) answers = map Some vs \<Longrightarrow>
   stdin w = answers @ rest \<Longrightarrow> files w model_path = None \<Longrightarrow>
   predict_and_report L w =
     (Inl FileNotFoundError,
      w\<lparr>stdin := rest,
        console := console w @ Printed ''Enter Essential Exoplanet Parameters:'' #
                   map (Prompted \<circ> snd) get_input_entries\<rparr>)"
proof -
  assume a: "length answers = 8" "map (py_float L) answers = map Some vs"
    "stdin w = answers @ rest" and absent: "files w model_path = None"
  show ?thesis
    by (simp add: predict_and_report_def get_input_ok [OF a] absent)
qed

theorem missing_model_file_not_found_witness:
  "length [''1'', ''2'', ''0.5'', ''1'', ''1'', ''300'', ''0.5'', ''2''] = 8 \<and>
   map (py_float demo_library) [''1'', ''2'', ''0.5'', ''1'', ''1'', ''300'', ''0.5'', ''2''] =
     map Some [Fin 1, Fin 2, Fin (1 / 2), Fin 1, Fin 1, Fin 300, Fin (1 / 2), Fin 2] \<and>
   stdin (demo_world [''1'', ''2'', ''0.5'', ''1'', ''1'', ''300'', ''0.5'', ''2'']) =
     [''1'', ''2'', ''0.5'', ''1'', ''1'', ''300'', ''0.5'', ''2''] @ [] \<and>
   files (demo_world [''1'', ''2'', ''0.5'', ''1'', ''1'', ''300'', ''0.5'', ''2'']) model_path = None \<and>
   predict_and_report demo_library
       (demo_world [''1'', ''2'', ''0.5'', ''1'', ''1'', ''300'', ''0.5'', ''2'']) =
     (Inl FileNotFoundError,
      (demo_world [''1'', ''2'', ''0.5'', ''1'', ''1'', ''300'', ''0.5'', ''2''])
        \<lparr>stdin := [],
         console :=
           console (demo_world [''1'', ''2'', ''0.5'', ''1'', ''1'', ''300'', ''0.5'', ''2'']) @
           Printed ''Enter Essential Exoplanet Parameters:'' #
           map (Prompted \<circ> snd) get_input_entries\<rparr>)"
proof -
  have len: "length [''1'', ''2'', ''0.5'', ''1'', ''1'', ''300'', ''0.5'', ''2''] = 8"
    by simp
  have st: "stdin (demo_world [''1'', ''2'', ''0.5'', ''1'', ''1'', ''300'', ''0.5'', ''2'']) =
     [''1'', ''2'', ''0.5'', ''1'', ''1'', ''300'', ''0.5'', ''2''] @ []"
    by (simp add: demo_world_def)
  have absent:
    "files (demo_world [''1'', ''2'', ''0.5'', ''1'', ''1'', ''300'', ''0.5'', ''2'']) model_path = None"
    by (simp add: demo_world_def)
  show ?thesis
    using len demo_parse_ok st absent missing_model_file_not_found [OF len demo_parse_ok st absent] by (intro conjI)
qed

section \<open>The trainer's data, model file and message\<close>





lemma length_ESSENTIAL_FEATURES: "length ESSENTIAL_FEATURES = 8"
  by (simp add: ESSENTIAL_FEATURES_def)

lemma length_GASES: "length GASES = 10"
  by (simp add: GASES_def)

lemma training_data_eq:
  "training_data L g =
     (fst (np_random_rand L 500 8 g),
      map (map (\<lambda>y. fmul y (Fin 100)))
        (fst (np_random_dirichlet L (replicate 10 (Fin 1)) 500 (snd (np_random_rand L 500 8 g)))),
      snd (np_random_dirichlet L (replicate 10 (Fin 1)) 500 (snd (np_random_rand L 500 8 g))))"
  by (simp only: training_data_def np_ones_def length_GASES length_ESSENTIAL_FEATURES
      Let_def split_beta)



section \<open>The order of the console output\<close>

lemma read_entries_console:
  "\<exists>evs. console (snd (read_entries pf entries w)) = console w @ evs"
proof (induction entries arbitrary: w)
  case Nil
  then show ?case by simp
next
  case (Cons e entries)
  obtain key prompt where e: "e = (key, prompt)" by (cases e)
  show ?case
  proof (cases "stdin w")
    case Nil
    then show ?thesis by (simp add: e input_def Let_def)
  next
    case (Cons line rest)
    let ?w1 = "w\<lparr>console := console w @ [Prompted prompt], stdin := rest\<rparr>"
    have inp: "input prompt w = (Inr line, ?w1)"
      using Cons by (simp add: input_def Let_def)
    obtain evs where evs: "console (snd (read_entries pf entries ?w1)) = console ?w1 @ evs"
      using Cons.IH by blast
    show ?thesis
    proof (cases "pf line")
      case None
      then show ?thesis by (simp add: e inp)
    next
      case (Some v)
      show ?thesis
        using evs by (cases "read_entries pf entries ?w1") (auto simp: e inp Some split: sum.splits)
    qed
  qed
qed

lemma predict_and_report_console:
  "\<exists>evs. console (snd (predict_and_report L w)) =
     console w @ Printed ''Enter Essential Exoplanet Parameters:'' # evs"
proof -
  let ?w0 = "print ''Enter Essential Exoplanet Parameters:'' w"
  obtain evs where evs: "console (snd (read_entries (py_float L) get_input_entries ?w0)) =
      console ?w0 @ evs"
    using read_entries_console by blast
  obtain res w1 where r: "read_entries (py_float L) get_input_entries ?w0 = (res, w1)"
    by (cases "read_entries (py_float L) get_input_entries ?w0")
  have c1: "console w1 = console w @ Printed ''Enter Essential Exoplanet Parameters:'' # evs"
    using evs r by (simp add: print_def)
  show ?thesis
    by (auto simp: predict_and_report_def get_input_def r c1 Let_def
        split: sum.splits option.splits list.splits)
qed

lemma script_console:
  "\<exists>evs. console (snd (script L w)) =
     console w @ map Printed citations @
     Printed ''Dummy atmospheric composition model trained and saved.'' #
     Printed ''Enter Essential Exoplanet Parameters:'' # evs"
proof -
  let ?w1 = "train_dummy_model L (w\<lparr>console := console w @ map Printed citations\<rparr>)"
  obtain evs where "console (snd (predict_and_report L ?w1)) =
     console ?w1 @ Printed ''Enter Essential Exoplanet Parameters:'' # evs"
    using predict_and_report_console by blast
  then show ?thesis
    by (simp add: script_def main_def console_train)
qed

lemma generate_report_last:
  "last (generate_report percentages) = Printed '' Referenced Research Papers:''"
  by (simp add: generate_report_def)

lemma demo_report:
  "generate_report (normalized demo_row) =
     [Printed (nl @ ''Atmospheric Composition Report''),
      Printed ''===================================='',
      Printed (''CO2: 71.43% '' @ em_dash @ '' Dominant gas''),
      Printed ('' N2: 5.10% '' @ em_dash @ '' Minor component''),
      Printed ('' O2: 5.10% '' @ em_dash @ '' Minor component''),
      Printed (''H2O: 5.10% '' @ em_dash @ '' Minor component''),
      Printed (''CH4: 5.10% '' @ em_dash @ '' Minor component''),
      Printed ('' H2: 2.04% '' @ em_dash @ '' Trace presence''),
      Printed ('' He: 2.04% '' @ em_dash @ '' Trace presence''),
      Printed (''SO2: 2.04% '' @ em_dash @ '' Trace presence''),
      Printed ('' O3: 1.02% '' @ em_dash @ '' Trace presence''),
      Printed (''NH3: 1.02% '' @ em_dash @ '' Trace presence''),
      Printed (''===================================='' @ nl),
      Printed '' Referenced Research Papers:'']"
  by code_simp

lemma demo_run:
  "script demo_library (demo_world [''1'', ''2'', ''0.5'', ''1'', ''1'', ''300'', ''0.5'', ''2'']) =
     (Inr (),
      \<lparr>stdin = [],
       console =
         map Printed citations @
         [Printed ''Dummy atmospheric composition model trained and saved.'',
          Printed ''Enter Essential Exoplanet Parameters:''] @
         map (Prompted \<circ> snd) get_input_entries @
         generate_report (normalized demo_row),
       files = [model_path \<mapsto> demo_row],
       rng = 2\<rparr>)"
proof -
  let ?answers = "[''1'', ''2'', ''0.5'', ''1'', ''1'', ''300'', ''0.5'', ''2'']"
  let ?W = "\<lparr>stdin = ?answers,
       console = map Printed citations @
         [Printed ''Dummy atmospheric composition model trained and saved.''],
       files = [model_path \<mapsto> demo_row], rng = 2::nat\<rparr>"
  have len: "length ?answers = 8" by simp
  have w1: "train_dummy_model demo_library
      ((demo_world ?answers)\<lparr>console := console (demo_world ?answers) @ map Printed citations\<rparr>) = ?W"
    by (simp add: train_dummy_model_def training_data_eq demo_library_def demo_world_def print_def)
  have st: "stdin ?W = ?answers @ []" by simp
  note gi = get_input_ok [OF len demo_parse_ok st]
  show ?thesis
    unfolding script_def main_def w1 predict_and_report_def
    by (simp add: gi) (simp add: demo_library_def)
qed

text \<open>
  C5. The report table is not followed by the four citation lines. In every run of the
  script the four citation lines are the first lines written, before the training
  message, the prompts and the report; the last line \<^verbatim>\<open>generate_report\<close> prints
  is the heading " Referenced Research Papers:", with nothing after it. The run on eight
  numeric answers and the raw vector [70,5,5,5,5,2,2,2,1,1] shows the whole console: the
  bordered table with right-aligned gas labels and two decimals, and where the citation
  lines stand.
\<close>

theorem citations_printed_before_report:
  "(\<exists>evs. console (snd (script L w)) =
      console w @ map Printed citations @
      Printed ''Dummy atmospheric composition model trained and saved.'' #
      Printed ''Enter Essential Exoplanet Parameters:'' # evs) \<and>
   last (generate_report percentages) = Printed '' Referenced Research Papers:'' \<and>
   script demo_library (demo_world [''1'', ''2'', ''0.5'', ''1'', ''1'', ''300'', ''0.5'', ''2'']) =
     (Inr (),
      \<lparr>stdin = [],
       console =
         map Printed citations @
         [Printed ''Dummy atmospheric composition model trained and saved.'',
          Printed ''Enter Essential Exoplanet Parameters:''] @
         map (Prompted \<circ> snd) get_input_entries @
         [Printed (nl @ ''Atmospheric Composition Report''),
          Printed ''===================================='',
          Printed (''CO2: 71.43% '' @ em_dash @ '' Dominant gas''),
          Printed ('' N2: 5.10% '' @ em_dash @ '' Minor component''),
          Printed ('' O2: 5.10% '' @ em_dash @ '' Minor component''),
          Printed (''H2O: 5.10% '' @ em_dash @ '' Minor component''),
          Printed (''CH4: 5.10% '' @ em_dash @ '' Minor component''),
          Printed ('' H2: 2.04% '' @ em_dash @ '' Trace presence''),
          Printed ('' He: 2.04% '' @ em_dash @ '' Trace presence''),
          Printed (''SO2: 2.04% '' @ em_dash @ '' Trace presence''),
          Printed ('' O3: 1.02% '' @ em_dash @ '' Trace presence''),
          Printed (''NH3: 1.02% '' @ em_dash @ '' Trace presence''),
          Printed (''===================================='' @ nl),
          Printed '' Referenced Research Papers:''],
       files = [model_path \<mapsto> demo_row],
       rng = 2\<rparr>)"
proof -
  have run:
    "script demo_library (demo_world [''1'', ''2'', ''0.5'', ''1'', ''1'', ''300'', ''0.5'', ''2'']) =
     (Inr (),
      \<lparr>stdin = [],
       console =
         map Printed citations @
         [Printed ''Dummy atmospheric composition model trained and saved.'',
          Printed ''Enter Essential Exoplanet Parameters:''] @
         map (Prompted \<circ> snd) get_input_entries @
         [Printed (nl @ ''Atmospheric Composition Report''),
          Printed ''===================================='',
          Printed (''CO2: 71.43% '' @ em_dash @ '' Dominant gas''),
          Printed ('' N2: 5.10% '' @ em_dash @ '' Minor component''),
          Printed ('' O2: 5.10% '' @ em_dash @ '' Minor component''),
          Printed (''H2O: 5.10% '' @ em_dash @ '' Minor component''),
          Printed (''CH4: 5.10% '' @ em_dash @ '' Minor component''),
          Printed ('' H2: 2.04% '' @ em_dash @ '' Trace presence''),
          Printed ('' He: 2.04% '' @ em_dash @ '' Trace presence''),
          Printed (''SO2: 2.04% '' @ em_dash @ '' Trace presence''),
          Printed ('' O3: 1.02% '' @ em_dash @ '' Trace presence''),
          Printed (''NH3: 1.02% '' @ em_dash @ '' Trace presence''),
          Printed (''===================================='' @ nl),
          Printed '' Referenced Research Papers:''],
       files = [model_path \<mapsto> demo_row],
       rng = 2\<rparr>)"
    using demo_run by (simp only: demo_report)
  show ?thesis
    using script_console [of L w] generate_report_last [of percentages] run
    by (intro conjI)
qed

section \<open>Rounding to binary64\<close>





















section \<open>Evaluating binary64 operations\<close>






section \<open>Normalization in binary64 is not exact\<close>
































































section \<open>Range and order of the normalized components in binary64\<close>




















end
